theory Spec2Isabelle
  imports Main "HOL-Library.Word" "HOL-Library.AList"
begin

unbundle bit_operations_syntax

section \<open>The native binding: \<^verbatim>\<open>src/native/crypto/main.cpp\<close>\<close>

subsection \<open>JavaScript values, objects and the environment\<close>

text \<open>
  The four native callbacks that \<^verbatim>\<open>main.cpp\<close> declares. A JavaScript function made by
  \<^verbatim>\<open>Napi::Function::New(env, cb)\<close> is identified by the callback it wraps.
\<close>

datatype callback = CB_AesEncrypt | CB_AesDecrypt | CB_Sha256Hash | CB_GetModuleInfo

text \<open>
  A JavaScript value as the binding sees it. An object is a handle into the environment's
  heap, so that two handles to the same object alias.
\<close>

datatype js_value =
    JsUndefined
  | JsNumber int
  | JsString string
  | JsFunction callback
  | JsObject nat

text \<open>
  A plain object: its own properties in insertion order. Setting a property that exists
  replaces its value in place, setting a new one appends it (\<^const>\<open>AList.update\<close>).
\<close>

type_synonym js_object = "(string \<times> js_value) list"

text \<open>
  \<^verbatim>\<open>Napi::Env\<close>: the objects of the JavaScript heap by handle, and the next handle that is
  not in use. The objects the binding touches (the module's exports, a new result object)
  are plain and extensible, so setting a property on them does not fail.
\<close>

record napi_env =
  heap :: "nat \<Rightarrow> js_object"
  next_handle :: nat

text \<open>\<^verbatim>\<open>Napi::Object::New(env)\<close>: a fresh, empty object.\<close>

definition Object_New :: "napi_env \<Rightarrow> nat \<times> napi_env" where
  "Object_New env =
     (next_handle env,
      env\<lparr>heap := (heap env)(next_handle env := []), next_handle := Suc (next_handle env)\<rparr>)"

text \<open>\<^verbatim>\<open>obj.Set(key, value)\<close>: writes one property of the object behind the handle.\<close>

definition Object_Set :: "nat \<Rightarrow> string \<Rightarrow> js_value \<Rightarrow> napi_env \<Rightarrow> napi_env" where
  "Object_Set obj key v env = env\<lparr>heap := (heap env)(obj := AList.update key v (heap env obj))\<rparr>"

text \<open>\<^verbatim>\<open>const Napi::CallbackInfo&\<close>: the arguments and the receiver of a call.\<close>

record callback_info =
  cb_args :: "js_value list"
  cb_this :: js_value

subsection \<open>The build\<close>

text \<open>
  What the preprocessor sees when \<^verbatim>\<open>main.cpp\<close> is compiled: which of the macros the file
  tests are defined, and the expansions of \<^verbatim>\<open>__DATE__\<close> and \<^verbatim>\<open>__TIME__\<close>.
\<close>

record build_config =
  def_WIN32 :: bool
  def_APPLE :: bool
  def_linux :: bool
  def_M_X64 :: bool
  def_M_IX86 :: bool
  def_x86_64 :: bool
  def_aarch64 :: bool
  macro_DATE :: string
  macro_TIME :: string

text \<open>Lines 29 to 37: the \<^verbatim>\<open>#ifdef _WIN32 ... #elif ... #else\<close> chain for the platform.\<close>

definition platform_string :: "build_config \<Rightarrow> string" where
  "platform_string cfg =
     (if def_WIN32 cfg then ''win32''
      else if def_APPLE cfg then ''darwin''
      else if def_linux cfg then ''linux''
      else ''unknown'')"

text \<open>Lines 39 to 49: the chain for the architecture.\<close>

definition arch_string :: "build_config \<Rightarrow> string" where
  "arch_string cfg =
     (if def_M_X64 cfg then ''x64''
      else if def_M_IX86 cfg then ''ia32''
      else if def_x86_64 cfg then ''x64''
      else if def_aarch64 cfg then ''arm64''
      else ''unknown'')"

text \<open>Lines 55 to 59: the symbol visibility.\<close>

definition visibility_string :: "build_config \<Rightarrow> string" where
  "visibility_string cfg = (if def_WIN32 cfg then ''dllexport'' else ''default'')"

subsection \<open>\<^verbatim>\<open>GetModuleInfo\<close>\<close>

text \<open>
  Lines 22 to 62. The function allocates a new object, sets seven properties in the order
  of the source and returns the object. It reads nothing of \<open>info\<close> but the environment.
\<close>

definition GetModuleInfo :: "build_config \<Rightarrow> callback_info \<Rightarrow> napi_env \<Rightarrow> js_value \<times> napi_env" where
  "GetModuleInfo cfg info env =
     (let (result, env0) = Object_New env;
          env1 = Object_Set result ''name'' (JsString ''web3_crypto_native'') env0;
          env2 = Object_Set result ''version'' (JsString ''1.0.0'') env1;
          env3 = Object_Set result ''platform'' (JsString (platform_string cfg)) env2;
          env4 = Object_Set result ''arch'' (JsString (arch_string cfg)) env3;
          env5 = Object_Set result ''buildDate'' (JsString (macro_DATE cfg)) env4;
          env6 = Object_Set result ''buildTime'' (JsString (macro_TIME cfg)) env5;
          env7 = Object_Set result ''symbolVisibility'' (JsString (visibility_string cfg)) env6
      in (JsObject result, env7))"

subsection \<open>\<^verbatim>\<open>Initialize\<close>\<close>

text \<open>
  Lines 67 to 83. \<open>exports\<close> is the handle of the object the host passes in; the function
  sets four properties on it and returns the handle.
\<close>

definition Initialize :: "napi_env \<Rightarrow> nat \<Rightarrow> nat \<times> napi_env" where
  "Initialize env exports =
     (let env1 = Object_Set exports ''aesEncrypt'' (JsFunction CB_AesEncrypt) env;
          env2 = Object_Set exports ''aesDecrypt'' (JsFunction CB_AesDecrypt) env1;
          env3 = Object_Set exports ''sha256'' (JsFunction CB_Sha256Hash) env2;
          env4 = Object_Set exports ''getModuleInfo'' (JsFunction CB_GetModuleInfo) env3
      in (exports, env4))"

definition entry_points :: "string set" where
  "entry_points = {''aesEncrypt'', ''aesDecrypt'', ''sha256'', ''getModuleInfo''}"

subsection \<open>Sample inputs\<close>

text \<open>
  Inputs of the closed instances further down: a Linux x86-64 build, a Windows x64 build,
  an environment whose object 0 already has one property, and two calls.
\<close>

definition linux_build :: build_config where
  "linux_build =
     \<lparr>def_WIN32 = False, def_APPLE = False, def_linux = True, def_M_X64 = False,
      def_M_IX86 = False, def_x86_64 = True, def_aarch64 = False,
      macro_DATE = ''Jan  1 2024'', macro_TIME = ''12:00:00''\<rparr>"

definition windows_build :: build_config where
  "windows_build =
     \<lparr>def_WIN32 = True, def_APPLE = False, def_linux = False, def_M_X64 = True,
      def_M_IX86 = False, def_x86_64 = False, def_aarch64 = False,
      macro_DATE = ''Jan  1 2024'', macro_TIME = ''12:00:00''\<rparr>"

definition sample_env :: napi_env where
  "sample_env = \<lparr>heap = (\<lambda>_. [])(0 := [(''default'', JsNumber 7)]), next_handle = 1\<rparr>"

definition no_args :: callback_info where
  "no_args = \<lparr>cb_args = [], cb_this = JsUndefined\<rparr>"

definition some_args :: callback_info where
  "some_args = \<lparr>cb_args = [JsString ''x'', JsNumber 3], cb_this = JsObject 0\<rparr>"

section \<open>The cryptographic core the binding fronts\<close>

text \<open>
  \<^verbatim>\<open>main.cpp\<close> declares \<^verbatim>\<open>AesEncrypt\<close>, \<^verbatim>\<open>AesDecrypt\<close> and \<^verbatim>\<open>Sha256Hash\<close> (lines 14 to 16) and
  registers them, but their bodies are in no file of the repository. The definitions of
  this section are therefore written from the specification: SHA-256 with a one-shot and a
  streaming interface (section 4.2), the AES block cipher (4.3), AES-GCM (4.4) and the
  facade with its typed errors (4.5, 6 and 7). Bytes are \<open>8 word\<close>, a byte sequence is a
  list of bytes.
\<close>

text \<open>Modelled from the spec: the bytes of the byte sequences of section 3, and the 32-bit
  and 128-bit numbers on which the absent bodies compute.\<close>

type_synonym byte = "8 word"
type_synonym w32 = "32 word"
type_synonym w128 = "128 word"

text \<open>
  Modelled from the spec: the error taxonomy of section 7, for the absent bodies of
  \<^verbatim>\<open>AesEncrypt\<close>, \<^verbatim>\<open>AesDecrypt\<close> and \<^verbatim>\<open>Sha256Hash\<close>.
\<close>

datatype error =
    InvalidKeyLength
  | InvalidNonceLength
  | InvalidTagLength
  | AuthenticationFailed
  | AlreadyFinalized
  | AllocationFailure

subsection \<open>Byte order\<close>

text \<open>Modelled from the spec: a 32-bit word from four bytes, big-endian (section 4.2,
  used by the absent \<^verbatim>\<open>Sha256Hash\<close> and AES key schedule).\<close>

definition be32 :: "byte \<Rightarrow> byte \<Rightarrow> byte \<Rightarrow> byte \<Rightarrow> w32" where
  "be32 a b c d = push_bit 24 (ucast a) OR push_bit 16 (ucast b) OR push_bit 8 (ucast c) OR ucast d"

text \<open>Modelled from the spec: the four bytes of a 32-bit word, big-endian (the digest
  output of the absent \<^verbatim>\<open>Sha256Hash\<close>).\<close>

definition be32_bytes :: "w32 \<Rightarrow> byte list" where
  "be32_bytes n = [ucast (drop_bit 24 n), ucast (drop_bit 16 n), ucast (drop_bit 8 n), ucast n]"

text \<open>Modelled from the spec: the ``64-bit big-endian length suffix'' of section 4.2, also
  the bit lengths that GCM authenticates (4.4).\<close>

definition be64_bytes :: "64 word \<Rightarrow> byte list" where
  "be64_bytes n =
     [ucast (drop_bit 56 n), ucast (drop_bit 48 n), ucast (drop_bit 40 n), ucast (drop_bit 32 n),
      ucast (drop_bit 24 n), ucast (drop_bit 16 n), ucast (drop_bit 8 n), ucast n]"

text \<open>Modelled from the spec: a byte sequence read as big-endian 32-bit words, four bytes
  at a time; trailing bytes that do not fill a word are dropped (absent \<^verbatim>\<open>Sha256Hash\<close>, 4.2).\<close>

fun block_words :: "byte list \<Rightarrow> w32 list" where
  "block_words (a # b # c # d # rest) = be32 a b c d # block_words rest"
| "block_words _ = []"

text \<open>Modelled from the spec: lower-case hexadecimal, the encoding in which section 8
  writes digests (absent \<^verbatim>\<open>Sha256Hash\<close>).\<close>

definition hex_digit :: "nat \<Rightarrow> char" where
  "hex_digit n = ''0123456789abcdef'' ! n"

text \<open>Modelled from the spec: the two hexadecimal digits of one byte (section 8).\<close>

definition hex_of_byte :: "byte \<Rightarrow> string" where
  "hex_of_byte b = [hex_digit (unat (drop_bit 4 b)), hex_digit (unat (b AND 0x0f))]"

text \<open>Modelled from the spec: the hexadecimal encoding of a byte sequence (section 8).\<close>

definition to_hex :: "byte list \<Rightarrow> string" where
  "to_hex bs = concat (map hex_of_byte bs)"

subsection \<open>SHA-256 engine (section 4.2)\<close>

text \<open>
  Modelled from the spec: the body of \<^verbatim>\<open>Sha256Hash\<close> is absent; section 4.2 asks for the
  standard iterated construction with ``64 rounds per 512-bit block, using the fixed
  SHA-256 round constants and initial hash values''. The running state is the eight
  32-bit words of the standard.
\<close>

type_synonym sha_state = "w32 \<times> w32 \<times> w32 \<times> w32 \<times> w32 \<times> w32 \<times> w32 \<times> w32"

text \<open>Modelled from the spec: rotation of a 32-bit word to the right, from two shifts
  (absent \<^verbatim>\<open>Sha256Hash\<close>, the round functions of 4.2).\<close>

definition rotr :: "nat \<Rightarrow> w32 \<Rightarrow> w32" where
  "rotr n x = drop_bit n x OR push_bit (32 - n) x"

text \<open>Modelled from the spec: the choice function of the SHA-256 round (4.2).\<close>

definition Ch :: "w32 \<Rightarrow> w32 \<Rightarrow> w32 \<Rightarrow> w32" where
  "Ch x y z = (x AND y) XOR (NOT x AND z)"

text \<open>Modelled from the spec: the majority function of the SHA-256 round (4.2).\<close>

definition Maj :: "w32 \<Rightarrow> w32 \<Rightarrow> w32 \<Rightarrow> w32" where
  "Maj x y z = (x AND y) XOR (x AND z) XOR (y AND z)"

text \<open>Modelled from the spec: the first mixing function of the SHA-256 round, on the
  state word \<open>a\<close> (4.2).\<close>

definition Sigma0 :: "w32 \<Rightarrow> w32" where
  "Sigma0 x = rotr 2 x XOR rotr 13 x XOR rotr 22 x"

text \<open>Modelled from the spec: the second mixing function of the SHA-256 round, on the
  state word \<open>e\<close> (4.2).\<close>

definition Sigma1 :: "w32 \<Rightarrow> w32" where
  "Sigma1 x = rotr 6 x XOR rotr 11 x XOR rotr 25 x"

text \<open>Modelled from the spec: the first mixing function of the message schedule (4.2).\<close>

definition sigma0 :: "w32 \<Rightarrow> w32" where
  "sigma0 x = rotr 7 x XOR rotr 18 x XOR drop_bit 3 x"

text \<open>Modelled from the spec: the second mixing function of the message schedule (4.2).\<close>

definition sigma1 :: "w32 \<Rightarrow> w32" where
  "sigma1 x = rotr 17 x XOR rotr 19 x XOR drop_bit 10 x"

text \<open>Modelled from the spec: ``the fixed SHA-256 round constants'' (4.2), one per round.\<close>

definition K256 :: "w32 list" where
  "K256 =
     [0x428A2F98, 0x71374491, 0xB5C0FBCF, 0xE9B5DBA5,
      0x3956C25B, 0x59F111F1, 0x923F82A4, 0xAB1C5ED5,
      0xD807AA98, 0x12835B01, 0x243185BE, 0x550C7DC3,
      0x72BE5D74, 0x80DEB1FE, 0x9BDC06A7, 0xC19BF174,
      0xE49B69C1, 0xEFBE4786, 0x0FC19DC6, 0x240CA1CC,
      0x2DE92C6F, 0x4A7484AA, 0x5CB0A9DC, 0x76F988DA,
      0x983E5152, 0xA831C66D, 0xB00327C8, 0xBF597FC7,
      0xC6E00BF3, 0xD5A79147, 0x06CA6351, 0x14292967,
      0x27B70A85, 0x2E1B2138, 0x4D2C6DFC, 0x53380D13,
      0x650A7354, 0x766A0ABB, 0x81C2C92E, 0x92722C85,
      0xA2BFE8A1, 0xA81A664B, 0xC24B8B70, 0xC76C51A3,
      0xD192E819, 0xD6990624, 0xF40E3585, 0x106AA070,
      0x19A4C116, 0x1E376C08, 0x2748774C, 0x34B0BCB5,
      0x391C0CB3, 0x4ED8AA4A, 0x5B9CCA4F, 0x682E6FF3,
      0x748F82EE, 0x78A5636F, 0x84C87814, 0x8CC70208,
      0x90BEFFFA, 0xA4506CEB, 0xBEF9A3F7, 0xC67178F2]"

text \<open>Modelled from the spec: the ``initial hash values'' of SHA-256 (4.2).\<close>

definition H256 :: sha_state where
  "H256 =
     (0x6A09E667, 0xBB67AE85, 0x3C6EF372, 0xA54FF53A,
      0x510E527F, 0x9B05688C, 0x1F83D9AB, 0x5BE0CD19)"

text \<open>Modelled from the spec: the next word of the message schedule, from the words
  2, 7, 15 and 16 places back (4.2; at least 16 words are present whenever it is used on a
  full block).\<close>

definition next_word :: "w32 list \<Rightarrow> w32" where
  "next_word ws =
     (let t = length ws
      in sigma1 (ws ! (t - 2)) + ws ! (t - 7) + sigma0 (ws ! (t - 15)) + ws ! (t - 16))"

text \<open>Modelled from the spec: the loop that extends the schedule by \<open>n\<close> words (4.2).\<close>

fun extend_schedule :: "nat \<Rightarrow> w32 list \<Rightarrow> w32 list" where
  "extend_schedule 0 ws = ws"
| "extend_schedule (Suc n) ws = extend_schedule n (ws @ [next_word ws])"

text \<open>Modelled from the spec: the 64 schedule words of one 512-bit block (4.2).\<close>

definition message_schedule :: "byte list \<Rightarrow> w32 list" where
  "message_schedule block = extend_schedule 48 (block_words block)"

text \<open>Modelled from the spec: one of the ``64 rounds per 512-bit block'' (4.2), on the
  state and the pair of round constant and schedule word.\<close>

fun sha_round :: "sha_state \<Rightarrow> w32 \<times> w32 \<Rightarrow> sha_state" where
  "sha_round (a, b, c, d, e, f, g, h) (k, w) =
     (let T1 = h + Sigma1 e + Ch e f g + k + w;
          T2 = Sigma0 a + Maj a b c
      in (T1 + T2, a, b, c, d + T1, e, f, g))"

text \<open>Modelled from the spec: word-wise addition of two states modulo \<open>2^32\<close> (4.2).\<close>

fun add_state :: "sha_state \<Rightarrow> sha_state \<Rightarrow> sha_state" where
  "add_state (a, b, c, d, e, f, g, h) (a', b', c', d', e', f', g', h') =
     (a + a', b + b', c + c', d + d', e + e', f + f', g + g', h + h')"

text \<open>Modelled from the spec: the compression of one 512-bit block into the running
  state (4.2).\<close>

definition compress :: "sha_state \<Rightarrow> byte list \<Rightarrow> sha_state" where
  "compress st block = add_state st (foldl sha_round st (zip K256 (message_schedule block)))"

text \<open>Modelled from the spec: the iteration of the compression over the full 64-byte blocks
  of a byte sequence; fewer than 64 trailing bytes are left alone (4.2).\<close>

function hash_blocks :: "sha_state \<Rightarrow> byte list \<Rightarrow> sha_state" where
  "hash_blocks st bs =
     (if length bs < 64 then st else hash_blocks (compress st (take 64 bs)) (drop 64 bs))"
  by pat_completeness auto
termination
  by (relation "measure (\<lambda>(st, bs). length bs)") auto

declare hash_blocks.simps [simp del]

text \<open>Modelled from the spec: ``message padded with a 1 bit, zero bits, and a 64-bit
  big-endian length suffix to a multiple of 512 bits'' (4.2). \<open>n\<close> is the number of bytes
  before the padding, \<open>bits\<close> the length counter.\<close>

definition padding :: "nat \<Rightarrow> 64 word \<Rightarrow> byte list" where
  "padding n bits = 0x80 # replicate ((119 - n mod 64) mod 64) 0 @ be64_bytes bits"

text \<open>Modelled from the spec: the padded message (4.2); the length suffix counts bits in
  64 bits.\<close>

definition pad :: "byte list \<Rightarrow> byte list" where
  "pad data = data @ padding (length data) (8 * of_nat (length data))"

text \<open>Modelled from the spec: the 32-byte digest, the state's words big-endian (4.2,
  ``digest length == 32 always'').\<close>

fun digest_of :: "sha_state \<Rightarrow> byte list" where
  "digest_of (a, b, c, d, e, f, g, h) =
     be32_bytes a @ be32_bytes b @ be32_bytes c @ be32_bytes d @
     be32_bytes e @ be32_bytes f @ be32_bytes g @ be32_bytes h"

text \<open>Modelled from the spec: \<open>hashOneShot(data: bytes) -> Digest\<close> (4.2), the absent body
  behind \<^verbatim>\<open>Sha256Hash\<close>: pad the whole message, iterate over its blocks.\<close>

definition hashOneShot :: "byte list \<Rightarrow> byte list" where
  "hashOneShot data = digest_of (hash_blocks H256 (pad data))"

text \<open>Modelled from the spec: \<open>sha256(data: bytes) -> bytes[32]\<close>, the facade's hash of
  sections 4.5 and 6 (absent \<^verbatim>\<open>Sha256Hash\<close>); it dispatches to the engine.\<close>

definition sha256 :: "byte list \<Rightarrow> byte list" where
  "sha256 data = hashOneShot data"

subsection \<open>Streaming interface (section 4.2)\<close>

text \<open>Modelled from the spec: \<open>HashState\<close> of section 3, a ``512-bit internal block
  buffer + 256-bit running state + 64-bit length counter'', with the mark that
  \<open>finalize\<close> has consumed it (absent \<^verbatim>\<open>Sha256Hash\<close>).\<close>

record HashState =
  hs_state :: sha_state
  hs_buffer :: "byte list"
  hs_length :: "64 word"
  hs_finalized :: bool

text \<open>Modelled from the spec: \<open>newStream() -> HashState\<close> (4.2).\<close>

definition newStream :: HashState where
  "newStream = \<lparr>hs_state = H256, hs_buffer = [], hs_length = 0, hs_finalized = False\<rparr>"

text \<open>Modelled from the spec: the buffer being emptied block by block: every full 64
  bytes are compressed into the state, what is left stays buffered (4.2).\<close>

function absorb :: "sha_state \<Rightarrow> byte list \<Rightarrow> sha_state \<times> byte list" where
  "absorb st bs =
     (if length bs < 64 then (st, bs) else absorb (compress st (take 64 bs)) (drop 64 bs))"
  by pat_completeness auto
termination
  by (relation "measure (\<lambda>(st, bs). length bs)") auto

declare absorb.simps [simp del]

text \<open>Modelled from the spec: \<open>update(state, chunk: bytes)\<close> (4.2). A state that was
  finalized is refused with \<open>AlreadyFinalized\<close> (``streaming hash misuse'', section 7);
  the length counter counts bits and wraps at \<open>2^64\<close>.\<close>

definition update :: "HashState \<Rightarrow> byte list \<Rightarrow> error + HashState" where
  "update s chunk =
     (if hs_finalized s then Inl AlreadyFinalized
      else
        (let (st, buf) = absorb (hs_state s) (hs_buffer s @ chunk)
         in Inr (s\<lparr>hs_state := st, hs_buffer := buf,
                   hs_length := hs_length s + 8 * of_nat (length chunk)\<rparr>)))"

text \<open>Modelled from the spec: \<open>finalize(state) -> Digest\<close> (4.2): pads what is buffered,
  using the length counter, and returns the digest with the state marked as consumed;
  ``subsequent calls on the same state fail with \<open>AlreadyFinalized\<close>''.\<close>

definition finalize :: "HashState \<Rightarrow> error + (byte list \<times> HashState)" where
  "finalize s =
     (if hs_finalized s then Inl AlreadyFinalized
      else
        Inr (digest_of (hash_blocks (hs_state s)
                          (hs_buffer s @ padding (length (hs_buffer s)) (hs_length s))),
             s\<lparr>hs_finalized := True\<rparr>))"

text \<open>Modelled from the spec: ``\<open>update\<close> may be called zero or more times'' (4.2): the
  chunks in order, stopping at the first error.\<close>

fun update_all :: "HashState \<Rightarrow> byte list list \<Rightarrow> error + HashState" where
  "update_all s [] = Inr s"
| "update_all s (c # cs) = (case update s c of Inl e \<Rightarrow> Inl e | Inr s' \<Rightarrow> update_all s' cs)"

text \<open>Modelled from the spec: a whole streaming session, \<open>finalize\<close> applied to a fresh
  state updated with the chunks in order (section 8, second property).\<close>

definition hashStream :: "byte list list \<Rightarrow> error + byte list" where
  "hashStream chunks =
     (case update_all newStream chunks of
        Inl e \<Rightarrow> Inl e
      | Inr s \<Rightarrow> (case finalize s of Inl e \<Rightarrow> Inl e | Inr (d, s') \<Rightarrow> Inr d))"

subsection \<open>AES block cipher core (section 4.3)\<close>

text \<open>
  Section 4.3 asks that no table be indexed by secret bytes and that nothing branch on
  them, so the substitution box is computed: the inverse in \<open>GF(2^8)\<close> by a fixed chain of
  multiplications, then the affine map. Only the forward cipher is modelled: GCM (4.4)
  never calls \<open>decryptBlock\<close>, and no property below is about it.
\<close>

text \<open>Modelled from the spec: XOR of two byte sequences, position by position, as long as
  the shorter one (absent \<^verbatim>\<open>AesEncrypt\<close> and \<^verbatim>\<open>AesDecrypt\<close>; 4.3 and 4.4).\<close>

definition xor_bytes :: "byte list \<Rightarrow> byte list \<Rightarrow> byte list" where
  "xor_bytes xs ys = map2 (XOR) xs ys"

text \<open>Modelled from the spec: multiplication by \<open>x\<close> in \<open>GF(2^8)\<close> modulo the AES
  polynomial, with a mask in place of a branch (4.3, constant time).\<close>

definition xtime :: "byte \<Rightarrow> byte" where
  "xtime a = push_bit 1 a XOR (0x1b AND - drop_bit 7 a)"

text \<open>Modelled from the spec: \<open>n\<close> steps of shift-and-add multiplication in \<open>GF(2^8)\<close>,
  each adding the multiplicand under a mask of the multiplier's low bit (4.3).\<close>

fun gf_mul_loop :: "nat \<Rightarrow> byte \<Rightarrow> byte \<Rightarrow> byte \<Rightarrow> byte" where
  "gf_mul_loop 0 a b acc = acc"
| "gf_mul_loop (Suc n) a b acc =
     gf_mul_loop n (xtime a) (drop_bit 1 b) (acc XOR (a AND - (b AND 1)))"

text \<open>Modelled from the spec: the product in \<open>GF(2^8)\<close>, always eight steps (4.3).\<close>

definition gf_mul :: "byte \<Rightarrow> byte \<Rightarrow> byte" where
  "gf_mul a b = gf_mul_loop 8 a b 0"

text \<open>Modelled from the spec: the inverse in \<open>GF(2^8)\<close> as the power 254 (0 goes to 0),
  by the same multiplications whatever the byte (4.3).\<close>

definition gf_inv :: "byte \<Rightarrow> byte" where
  "gf_inv a =
     (let x2 = gf_mul a a;
          x3 = gf_mul x2 a;
          x6 = gf_mul x3 x3;
          x12 = gf_mul x6 x6;
          x15 = gf_mul x12 x3;
          x30 = gf_mul x15 x15;
          x60 = gf_mul x30 x30;
          x120 = gf_mul x60 x60;
          x126 = gf_mul x120 x6;
          x127 = gf_mul x126 a
      in gf_mul x127 x127)"

text \<open>Modelled from the spec: rotation of a byte to the left (the affine map of the
  substitution box, 4.3).\<close>

definition rotl8 :: "nat \<Rightarrow> byte \<Rightarrow> byte" where
  "rotl8 n x = push_bit n x OR drop_bit (8 - n) x"

text \<open>Modelled from the spec: the AES substitution box, evaluated and not looked up
  (``constant-time substitution-box evaluation'', 4.3).\<close>

definition sbox :: "byte \<Rightarrow> byte" where
  "sbox a =
     (let x = gf_inv a
      in x XOR rotl8 1 x XOR rotl8 2 x XOR rotl8 3 x XOR rotl8 4 x XOR 0x63)"

text \<open>Modelled from the spec: the byte substitution of a round, on the 16-byte state
  (4.3). The state is stored column by column: byte \<open>r + 4 c\<close> is row \<open>r\<close> of column \<open>c\<close>.\<close>

definition sub_bytes :: "byte list \<Rightarrow> byte list" where
  "sub_bytes s = map sbox s"

text \<open>Modelled from the spec: the row shift of a round: row \<open>r\<close> moves \<open>r\<close> columns to the
  left (4.3).\<close>

definition shift_rows :: "byte list \<Rightarrow> byte list" where
  "shift_rows s = map (\<lambda>i. s ! (i mod 4 + 4 * ((i div 4 + i mod 4) mod 4))) [0..<16]"

text \<open>Modelled from the spec: the column mix of a round, four bytes at a time, with the
  products by 2 and 3 written through \<open>xtime\<close> (4.3).\<close>

fun mix_columns :: "byte list \<Rightarrow> byte list" where
  "mix_columns (a0 # a1 # a2 # a3 # rest) =
     [xtime a0 XOR (xtime a1 XOR a1) XOR a2 XOR a3,
      a0 XOR xtime a1 XOR (xtime a2 XOR a2) XOR a3,
      a0 XOR a1 XOR xtime a2 XOR (xtime a3 XOR a3),
      (xtime a0 XOR a0) XOR a1 XOR a2 XOR xtime a3] @ mix_columns rest"
| "mix_columns _ = []"

text \<open>Modelled from the spec: the round key added to the state (4.3).\<close>

definition add_round_key :: "byte list \<Rightarrow> byte list \<Rightarrow> byte list" where
  "add_round_key rk s = xor_bytes s rk"

text \<open>Modelled from the spec: the substitution box on each byte of a key-schedule word
  (\<open>expandKey\<close>, 4.3).\<close>

definition sub_word :: "w32 \<Rightarrow> w32" where
  "sub_word w =
     be32 (sbox (ucast (drop_bit 24 w))) (sbox (ucast (drop_bit 16 w)))
          (sbox (ucast (drop_bit 8 w))) (sbox (ucast w))"

text \<open>Modelled from the spec: a key-schedule word rotated by one byte (\<open>expandKey\<close>, 4.3).\<close>

definition rot_word :: "w32 \<Rightarrow> w32" where
  "rot_word w = push_bit 8 w OR drop_bit 24 w"

text \<open>Modelled from the spec: the round constant of the key schedule, \<open>x^(j - 1)\<close> in the
  top byte (\<open>expandKey\<close>, 4.3).\<close>

definition rcon :: "nat \<Rightarrow> w32" where
  "rcon j = push_bit 24 (ucast ((xtime ^^ (j - 1)) 1))"

text \<open>Modelled from the spec: the next word of the expanded key, for a key of \<open>nk\<close> words
  (\<open>expandKey\<close>, 4.3).\<close>

definition next_key_word :: "nat \<Rightarrow> w32 list \<Rightarrow> w32" where
  "next_key_word nk ws =
     (let i = length ws;
          temp = ws ! (i - 1);
          temp' = (if i mod nk = 0 then sub_word (rot_word temp) XOR rcon (i div nk)
                   else if 6 < nk \<and> i mod nk = 4 then sub_word temp
                   else temp)
      in ws ! (i - nk) XOR temp')"

text \<open>Modelled from the spec: the key-schedule loop, \<open>n\<close> more words (\<open>expandKey\<close>, 4.3).\<close>

fun expand_loop :: "nat \<Rightarrow> nat \<Rightarrow> w32 list \<Rightarrow> w32 list" where
  "expand_loop 0 nk ws = ws"
| "expand_loop (Suc n) nk ws = expand_loop n nk (ws @ [next_key_word nk ws])"

text \<open>Modelled from the spec: the expanded words cut into 16-byte round keys (4.3).\<close>

fun round_keys_of :: "w32 list \<Rightarrow> byte list list" where
  "round_keys_of (a # b # c # d # rest) =
     (be32_bytes a @ be32_bytes b @ be32_bytes c @ be32_bytes d) # round_keys_of rest"
| "round_keys_of _ = []"

text \<open>Modelled from the spec: \<open>expandKey(key) -> RoundKeys\<close> (4.3): ``round count:
  10/12/14 for 128/192/256-bit keys'', that is \<open>nk + 6\<close> rounds and one round key more for
  a key of \<open>nk\<close> words. The key's length is checked by the facade, not here.\<close>

definition expandKey :: "byte list \<Rightarrow> byte list list" where
  "expandKey key =
     (let nk = length key div 4;
          nr = nk + 6
      in round_keys_of (expand_loop (4 * (nr + 1) - nk) nk (block_words key)))"

text \<open>Modelled from the spec: one full round of the cipher (4.3).\<close>

definition aes_round :: "byte list \<Rightarrow> byte list \<Rightarrow> byte list" where
  "aes_round s rk = add_round_key rk (mix_columns (shift_rows (sub_bytes s)))"

text \<open>Modelled from the spec: the last round, without the column mix (4.3).\<close>

definition final_round :: "byte list \<Rightarrow> byte list \<Rightarrow> byte list" where
  "final_round s rk = add_round_key rk (shift_rows (sub_bytes s))"

text \<open>Modelled from the spec: \<open>encryptBlock(RoundKeys, 16-byte block) -> 16-byte block\<close>
  (4.3): the first round key, the full rounds, the last round. \<open>expandKey\<close> never returns
  fewer than seven round keys, so the first case is not met on its results.\<close>

definition encryptBlock :: "byte list list \<Rightarrow> byte list \<Rightarrow> byte list" where
  "encryptBlock rks block =
     (case rks of
        [] \<Rightarrow> block
      | rk0 # rest \<Rightarrow>
          final_round (foldl aes_round (add_round_key rk0 block) (butlast rest)) (last rest))"

subsection \<open>Constant-time comparison (section 4.1)\<close>

text \<open>Modelled from the spec: the ``constant-time equality comparison (for tag
  verification) that does not short-circuit on first mismatching byte'' of 4.1 (absent
  \<^verbatim>\<open>AesDecrypt\<close>): the differences of all positions are accumulated with OR.\<close>

definition ct_equal :: "byte list \<Rightarrow> byte list \<Rightarrow> bool" where
  "ct_equal a b \<longleftrightarrow>
     length a = length b \<and> foldl (\<lambda>acc (x, y). acc OR (x XOR y)) 0 (zip a b) = 0"

subsection \<open>Authenticated mode wrapper: AES-GCM (section 4.4)\<close>

text \<open>Modelled from the spec: a block of at most 16 bytes as a 128-bit number, the first
  byte on top (the universal hash of 4.4, absent \<^verbatim>\<open>AesEncrypt\<close> and \<^verbatim>\<open>AesDecrypt\<close>).\<close>

definition block_to_word :: "byte list \<Rightarrow> w128" where
  "block_to_word bs = foldl (\<lambda>acc b. push_bit 8 acc OR ucast b) 0 bs"

text \<open>Modelled from the spec: the 16 bytes of a 128-bit number (4.4).\<close>

definition word_to_block :: "w128 \<Rightarrow> byte list" where
  "word_to_block w = map (\<lambda>i. ucast (drop_bit (8 * (15 - i)) w)) [0..<16]"

text \<open>Modelled from the spec: \<open>n\<close> steps of the multiplication in \<open>GF(2^128)\<close> of the
  ``polynomial (GHASH-style) universal hash'' of 4.4, with masks in place of branches.\<close>

fun gf128_mul_loop :: "nat \<Rightarrow> w128 \<Rightarrow> w128 \<Rightarrow> w128 \<Rightarrow> w128" where
  "gf128_mul_loop 0 x v z = z"
| "gf128_mul_loop (Suc n) x v z =
     gf128_mul_loop n (push_bit 1 x)
       (drop_bit 1 v XOR (push_bit 120 0xe1 AND - (v AND 1)))
       (z XOR (v AND - drop_bit 127 x))"

text \<open>Modelled from the spec: the product in \<open>GF(2^128)\<close>, always 128 steps (4.4).\<close>

definition gf128_mul :: "w128 \<Rightarrow> w128 \<Rightarrow> w128" where
  "gf128_mul x y = gf128_mul_loop 128 x y 0"

text \<open>Modelled from the spec: a byte sequence filled with zero bytes to a multiple of 16
  (4.4).\<close>

definition pad16 :: "byte list \<Rightarrow> byte list" where
  "pad16 bs = bs @ replicate ((16 - length bs mod 16) mod 16) 0"

text \<open>Modelled from the spec: the universal hash run over a byte sequence, 16 bytes at a
  time, the last block filled with zeros (4.4).\<close>

function ghash_loop :: "w128 \<Rightarrow> w128 \<Rightarrow> byte list \<Rightarrow> w128" where
  "ghash_loop h y bs =
     (if bs = [] then y
      else ghash_loop h (gf128_mul (y XOR block_to_word (pad16 (take 16 bs))) h) (drop 16 bs))"
  by pat_completeness auto
termination
  by (relation "measure (\<lambda>(h, y, bs). length bs)") auto

declare ghash_loop.simps [simp del]

text \<open>Modelled from the spec: the hash ``over (AAD, ciphertext, their bit-lengths)''
  (4.4), the lengths as two 64-bit big-endian numbers.\<close>

definition ghash :: "w128 \<Rightarrow> byte list \<Rightarrow> byte list \<Rightarrow> w128" where
  "ghash h aad ct =
     (let y1 = ghash_loop h 0 aad;
          y2 = ghash_loop h y1 ct;
          lens = be64_bytes (8 * of_nat (length aad)) @ be64_bytes (8 * of_nat (length ct))
      in gf128_mul (y2 XOR block_to_word lens) h)"

text \<open>Modelled from the spec: the ``nonce-derived counter block'' (4.4): the 12-byte
  nonce followed by the 32-bit counter 1.\<close>

definition initial_counter :: "byte list \<Rightarrow> byte list" where
  "initial_counter nonce = nonce @ [0, 0, 0, 1]"

text \<open>Modelled from the spec: the counter block with its last 32 bits incremented modulo
  \<open>2^32\<close> (AES-CTR, 4.4). The block has 16 bytes whenever the nonce has the 12 that the
  facade insists on; a block of another length keeps its tail.\<close>

definition inc32 :: "byte list \<Rightarrow> byte list" where
  "inc32 cb =
     take 12 cb @
     (case drop 12 cb of
        [a, b, c, d] \<Rightarrow> be32_bytes (be32 a b c d + 1)
      | rest \<Rightarrow> rest)"

text \<open>Modelled from the spec: ``derive a per-message keystream via AES-CTR ...; XOR with
  plaintext to produce ciphertext'' (4.4): one encrypted counter block per 16 bytes of
  data, the last one cut to the data.\<close>

function ctr_xor :: "byte list list \<Rightarrow> byte list \<Rightarrow> byte list \<Rightarrow> byte list" where
  "ctr_xor rks cb data =
     (if data = [] then []
      else xor_bytes (take 16 data) (encryptBlock rks cb) @ ctr_xor rks (inc32 cb) (drop 16 data))"
  by pat_completeness auto
termination
  by (relation "measure (\<lambda>(rks, cb, data). length data)") auto

declare ctr_xor.simps [simp del]

text \<open>Modelled from the spec: the authentication tag (4.4): the universal hash ``keyed by
  AES-encrypting an all-zero block under the same key'', masked with the encrypted
  initial counter block.\<close>

definition gcm_tag :: "byte list \<Rightarrow> byte list \<Rightarrow> byte list \<Rightarrow> byte list \<Rightarrow> byte list" where
  "gcm_tag key nonce aad ct =
     (let rks = expandKey key;
          h = block_to_word (encryptBlock rks (replicate 16 0));
          s = ghash h aad ct
      in xor_bytes (word_to_block s) (encryptBlock rks (initial_counter nonce)))"

text \<open>Modelled from the spec: Encrypt of 4.4 (absent \<^verbatim>\<open>AesEncrypt\<close>): returns
  \<open>(ciphertext, tag)\<close>.\<close>

definition gcm_encrypt ::
  "byte list \<Rightarrow> byte list \<Rightarrow> byte list \<Rightarrow> byte list \<Rightarrow> byte list \<times> byte list" where
  "gcm_encrypt key nonce plaintext aad =
     (let rks = expandKey key;
          ct = ctr_xor rks (inc32 (initial_counter nonce)) plaintext
      in (ct, gcm_tag key nonce aad ct))"

text \<open>Modelled from the spec: Decrypt of 4.4 (absent \<^verbatim>\<open>AesDecrypt\<close>): ``recompute the
  expected tag from (AAD, received ciphertext) identically; compare against the supplied
  tag using constant-time equality; if mismatch, fail with \<open>AuthenticationFailed\<close> and do
  not return any decrypted plaintext''.\<close>

definition gcm_decrypt ::
  "byte list \<Rightarrow> byte list \<Rightarrow> byte list \<Rightarrow> byte list \<Rightarrow> byte list \<Rightarrow> error + byte list" where
  "gcm_decrypt key nonce ct tag aad =
     (if ct_equal tag (gcm_tag key nonce aad ct)
      then Inr (ctr_xor (expandKey key) (inc32 (initial_counter nonce)) ct)
      else Inl AuthenticationFailed)"

subsection \<open>Primitive API facade (sections 4.5 and 6)\<close>

text \<open>Modelled from the spec: the invariant ``key length in {16,24,32}'' of section 3
  (absent \<^verbatim>\<open>AesEncrypt\<close> and \<^verbatim>\<open>AesDecrypt\<close>).\<close>

definition valid_key_length :: "nat \<Rightarrow> bool" where
  "valid_key_length n \<longleftrightarrow> n = 16 \<or> n = 24 \<or> n = 32"

text \<open>Modelled from the spec: \<open>encrypt(key, nonce, plaintext, aad) -> (ciphertext, tag)\<close>
  (4.5, 6; absent \<^verbatim>\<open>AesEncrypt\<close>): ``validates argument shapes/lengths before dispatch'',
  with the typed errors of section 7. A caller that has no associated data passes the
  empty sequence, the default of section 6.\<close>

definition encrypt ::
  "byte list \<Rightarrow> byte list \<Rightarrow> byte list \<Rightarrow> byte list \<Rightarrow> error + (byte list \<times> byte list)" where
  "encrypt key nonce plaintext aad =
     (if valid_key_length (length key)
      then (if length nonce = 12
            then Inr (gcm_encrypt key nonce plaintext aad)
            else Inl InvalidNonceLength)
      else Inl InvalidKeyLength)"

text \<open>Modelled from the spec: \<open>decrypt(key, nonce, ciphertext, tag, aad) -> plaintext |
  AuthenticationFailed\<close> (4.5, 6; absent \<^verbatim>\<open>AesDecrypt\<close>): the lengths of key, nonce and tag
  are validated first, then the wrapper decides.\<close>

definition decrypt ::
  "byte list \<Rightarrow> byte list \<Rightarrow> byte list \<Rightarrow> byte list \<Rightarrow> byte list \<Rightarrow> error + byte list" where
  "decrypt key nonce ct tag aad =
     (if valid_key_length (length key)
      then (if length nonce = 12
            then (if length tag = 16
                  then gcm_decrypt key nonce ct tag aad
                  else Inl InvalidTagLength)
            else Inl InvalidNonceLength)
      else Inl InvalidKeyLength)"

subsection \<open>Sample inputs of the core\<close>

text \<open>Inputs of the closed instances further down.\<close>

definition sample_key :: "byte list" where
  "sample_key =
     [0xfe, 0xff, 0xe9, 0x92, 0x86, 0x65, 0x73, 0x1c, 0x6d, 0x6a, 0x8f, 0x94, 0x67, 0x30, 0x83, 0x08]"

definition sample_nonce :: "byte list" where
  "sample_nonce = [0xca, 0xfe, 0xba, 0xbe, 0xfa, 0xce, 0xdb, 0xad, 0xde, 0xca, 0xf8, 0x88]"

definition sample_plaintext :: "byte list" where
  "sample_plaintext = [0x68, 0x65, 0x6c, 0x6c, 0x6f]"

definition sample_aad :: "byte list" where
  "sample_aad = [0x01, 0x02]"

subsection \<open>Auxiliary notions of the proofs\<close>

text \<open>What \<open>absorb\<close> leaves in the buffer: the bytes after the last full block.\<close>

function residue :: "byte list \<Rightarrow> byte list" where
  "residue bs = (if length bs < 64 then bs else residue (drop 64 bs))"
  by pat_completeness auto
termination
  by (relation "measure length") auto

declare residue.simps [simp del]

text \<open>The streaming state after the bytes \<open>d\<close> have been fed to a fresh state.\<close>

definition stream_inv :: "byte list \<Rightarrow> HashState \<Rightarrow> bool" where
  "stream_inv d s \<longleftrightarrow>
     hs_state s = hash_blocks H256 d \<and> hs_buffer s = residue d \<and>
     hs_length s = 8 * of_nat (length d) \<and> \<not> hs_finalized s"

section \<open>Properties of the binding\<close>

lemma heap_Object_Set:
  "heap (Object_Set obj key v env) = (heap env)(obj := AList.update key v (heap env obj))"
  by (simp add: Object_Set_def)

lemma next_handle_Object_Set: "next_handle (Object_Set obj key v env) = next_handle env"
  by (simp add: Object_Set_def)

lemma GetModuleInfo_result:
  "GetModuleInfo cfg info env =
     (JsObject (next_handle env),
      env\<lparr>heap := (heap env)(next_handle env :=
             [(''name'', JsString ''web3_crypto_native''),
              (''version'', JsString ''1.0.0''),
              (''platform'', JsString (platform_string cfg)),
              (''arch'', JsString (arch_string cfg)),
              (''buildDate'', JsString (macro_DATE cfg)),
              (''buildTime'', JsString (macro_TIME cfg)),
              (''symbolVisibility'', JsString (visibility_string cfg))]),
          next_handle := Suc (next_handle env)\<rparr>)"
  by (simp add: GetModuleInfo_def Object_New_def Object_Set_def Let_def)

lemma platform_string_cases:
  "platform_string cfg \<in> {''win32'', ''darwin'', ''linux'', ''unknown''}"
  by (simp add: platform_string_def)

lemma arch_string_cases:
  "arch_string cfg \<in> {''x64'', ''ia32'', ''arm64'', ''unknown''}"
  by (simp add: arch_string_def)

lemma Initialize_result:
  "Initialize env exports =
     (exports,
      env\<lparr>heap := (heap env)(exports :=
        AList.update ''getModuleInfo'' (JsFunction CB_GetModuleInfo)
          (AList.update ''sha256'' (JsFunction CB_Sha256Hash)
            (AList.update ''aesDecrypt'' (JsFunction CB_AesDecrypt)
              (AList.update ''aesEncrypt'' (JsFunction CB_AesEncrypt) (heap env exports)))))\<rparr>)"
  by (simp add: Initialize_def Object_Set_def Let_def)

lemma filter_update_other:
  "\<not> P (k, v) \<Longrightarrow> (\<And>w. \<not> P (k, w)) \<Longrightarrow> filter P (AList.update k v al) = filter P al"
  by (induction al) auto

text \<open>
  C2. Every call of \<open>GetModuleInfo\<close> returns an object with exactly the seven properties
  name, version, platform, arch, buildDate, buildTime and symbolVisibility, each a string;
  the platform is one of win32, darwin, linux, unknown and the arch one of x64, ia32, arm64,
  unknown.
\<close>

theorem GetModuleInfo_seven_fields:
  "\<exists>h env' nm ver plat arch bd bt vis.
     GetModuleInfo cfg info env = (JsObject h, env') \<and>
     heap env' h =
       [(''name'', JsString nm), (''version'', JsString ver), (''platform'', JsString plat),
        (''arch'', JsString arch), (''buildDate'', JsString bd), (''buildTime'', JsString bt),
        (''symbolVisibility'', JsString vis)] \<and>
     plat \<in> {''win32'', ''darwin'', ''linux'', ''unknown''} \<and>
     arch \<in> {''x64'', ''ia32'', ''arm64'', ''unknown''}"
  using platform_string_cases [of cfg] arch_string_cases [of cfg]
  by (simp add: GetModuleInfo_result)

theorem GetModuleInfo_seven_fields_witness:
  "\<exists>env'. GetModuleInfo linux_build some_args sample_env = (JsObject 1, env') \<and>
     heap env' 1 =
       [(''name'', JsString ''web3_crypto_native''), (''version'', JsString ''1.0.0''),
        (''platform'', JsString ''linux''), (''arch'', JsString ''x64''),
        (''buildDate'', JsString ''Jan  1 2024''), (''buildTime'', JsString ''12:00:00''),
        (''symbolVisibility'', JsString ''default'')]"
  using GetModuleInfo_seven_fields [of linux_build some_args sample_env]
  by (simp add: GetModuleInfo_result linux_build_def sample_env_def platform_string_def
      arch_string_def visibility_string_def)

text \<open>
  C3. \<open>GetModuleInfo\<close> is pure and deterministic: within one build, any two calls, whatever
  their arguments and whatever the state of the environment, return objects with the same
  properties; the result does not depend on the call's arguments; and the only effect on
  the environment is the allocation of the returned object: every other object is as it
  was.
\<close>

theorem GetModuleInfo_pure:
  "(\<forall>h1 e1 h2 e2.
      GetModuleInfo cfg info1 env1 = (JsObject h1, e1) \<and>
      GetModuleInfo cfg info2 env2 = (JsObject h2, e2) \<longrightarrow> heap e1 h1 = heap e2 h2) \<and>
   GetModuleInfo cfg info1 env = GetModuleInfo cfg info2 env \<and>
   (\<forall>h. h \<noteq> next_handle env \<longrightarrow> heap (snd (GetModuleInfo cfg info env)) h = heap env h) \<and>
   fst (GetModuleInfo cfg info env) = JsObject (next_handle env)"
  by (simp add: GetModuleInfo_result)

theorem GetModuleInfo_pure_witness:
  "heap (snd (GetModuleInfo linux_build no_args sample_env)) 1 =
     heap (snd (GetModuleInfo linux_build some_args (snd (GetModuleInfo linux_build no_args sample_env)))) 2 \<and>
   GetModuleInfo linux_build no_args sample_env = GetModuleInfo linux_build some_args sample_env \<and>
   heap (snd (GetModuleInfo linux_build some_args sample_env)) 0 = [(''default'', JsNumber 7)] \<and>
   fst (GetModuleInfo linux_build some_args sample_env) = JsObject 1"
  using GetModuleInfo_pure [of linux_build no_args sample_env some_args
      "snd (GetModuleInfo linux_build no_args sample_env)" sample_env some_args]
  by (simp add: sample_env_def GetModuleInfo_result)

text \<open>
  C8. Every call of \<open>GetModuleInfo\<close> returns the name \<open>web3_crypto_native\<close> and the version
  \<open>1.0.0\<close>, whatever the build (platform, architecture) and the call's arguments.
\<close>

theorem GetModuleInfo_name_version:
  "\<exists>h env'. GetModuleInfo cfg info env = (JsObject h, env') \<and>
     map_of (heap env' h) ''name'' = Some (JsString ''web3_crypto_native'') \<and>
     map_of (heap env' h) ''version'' = Some (JsString ''1.0.0'')"
  by (simp add: GetModuleInfo_result)

theorem GetModuleInfo_name_version_witness:
  "\<exists>env'. GetModuleInfo windows_build some_args sample_env = (JsObject 1, env') \<and>
     map_of (heap env' 1) ''name'' = Some (JsString ''web3_crypto_native'') \<and>
     map_of (heap env' 1) ''version'' = Some (JsString ''1.0.0'')"
  using GetModuleInfo_name_version [of windows_build some_args sample_env]
  by (simp add: GetModuleInfo_result sample_env_def)

text \<open>
  C10. The symbolVisibility property of the object \<open>GetModuleInfo\<close> returns is
  \<open>dllexport\<close> when \<^verbatim>\<open>_WIN32\<close> is defined (a Windows build) and \<open>default\<close> in every other
  build. These are the builds whose platform property is \<open>win32\<close>.
\<close>

theorem GetModuleInfo_symbolVisibility:
  "\<exists>h env'. GetModuleInfo cfg info env = (JsObject h, env') \<and>
     map_of (heap env' h) ''symbolVisibility'' =
       Some (JsString (if def_WIN32 cfg then ''dllexport'' else ''default'')) \<and>
     (map_of (heap env' h) ''platform'' = Some (JsString ''win32'') \<longleftrightarrow> def_WIN32 cfg)"
  by (simp add: GetModuleInfo_result visibility_string_def platform_string_def)

theorem GetModuleInfo_symbolVisibility_witness:
  "(\<exists>env'. GetModuleInfo windows_build no_args sample_env = (JsObject 1, env') \<and>
      map_of (heap env' 1) ''symbolVisibility'' = Some (JsString ''dllexport'') \<and>
      map_of (heap env' 1) ''platform'' = Some (JsString ''win32'')) \<and>
   (\<exists>env'. GetModuleInfo linux_build no_args sample_env = (JsObject 1, env') \<and>
      map_of (heap env' 1) ''symbolVisibility'' = Some (JsString ''default'') \<and>
      map_of (heap env' 1) ''platform'' = Some (JsString ''linux''))"
  using GetModuleInfo_symbolVisibility [of windows_build no_args sample_env]
    GetModuleInfo_symbolVisibility [of linux_build no_args sample_env]
  by (simp add: GetModuleInfo_result windows_build_def linux_build_def sample_env_def
      platform_string_def visibility_string_def)

text \<open>
  C1. \<open>Initialize\<close> registers exactly four entry points on the exports object: afterwards
  the object's property names are the ones it had before together with aesEncrypt,
  aesDecrypt, sha256 and getModuleInfo, and no others; each of the four names holds the
  function that wraps the matching native callback. On an exports object that was empty,
  the properties are exactly these four, in this order.
\<close>

theorem Initialize_registers_four:
  "fst ` set (heap (snd (Initialize env exports)) exports) =
     fst ` set (heap env exports) \<union> {''aesEncrypt'', ''aesDecrypt'', ''sha256'', ''getModuleInfo''} \<and>
   map_of (heap (snd (Initialize env exports)) exports) ''aesEncrypt'' = Some (JsFunction CB_AesEncrypt) \<and>
   map_of (heap (snd (Initialize env exports)) exports) ''aesDecrypt'' = Some (JsFunction CB_AesDecrypt) \<and>
   map_of (heap (snd (Initialize env exports)) exports) ''sha256'' = Some (JsFunction CB_Sha256Hash) \<and>
   map_of (heap (snd (Initialize env exports)) exports) ''getModuleInfo'' = Some (JsFunction CB_GetModuleInfo) \<and>
   (heap env exports = [] \<longrightarrow>
      heap (snd (Initialize env exports)) exports =
        [(''aesEncrypt'', JsFunction CB_AesEncrypt), (''aesDecrypt'', JsFunction CB_AesDecrypt),
         (''sha256'', JsFunction CB_Sha256Hash), (''getModuleInfo'', JsFunction CB_GetModuleInfo)])"
proof -
  let ?new = "heap (snd (Initialize env exports)) exports"
  have keys: "fst ` set ?new =
      fst ` set (heap env exports) \<union> {''aesEncrypt'', ''aesDecrypt'', ''sha256'', ''getModuleInfo''}"
    unfolding dom_map_of_conv_image_fst [symmetric]
    by (auto simp add: Initialize_result update_conv')
  have vals: "map_of ?new = (map_of (heap env exports))
      (''aesEncrypt'' \<mapsto> JsFunction CB_AesEncrypt, ''aesDecrypt'' \<mapsto> JsFunction CB_AesDecrypt,
       ''sha256'' \<mapsto> JsFunction CB_Sha256Hash, ''getModuleInfo'' \<mapsto> JsFunction CB_GetModuleInfo)"
    by (simp add: Initialize_result update_conv')
  have fresh: "heap env exports = [] \<longrightarrow> ?new =
        [(''aesEncrypt'', JsFunction CB_AesEncrypt), (''aesDecrypt'', JsFunction CB_AesDecrypt),
         (''sha256'', JsFunction CB_Sha256Hash), (''getModuleInfo'', JsFunction CB_GetModuleInfo)]"
    by (simp add: Initialize_result)
  from keys fresh show ?thesis
    unfolding vals by simp
qed

theorem Initialize_registers_four_witness:
  "fst ` set (heap (snd (Initialize sample_env 0)) 0) =
     {''default'', ''aesEncrypt'', ''aesDecrypt'', ''sha256'', ''getModuleInfo''} \<and>
   heap (snd (Initialize sample_env 5)) 5 =
        [(''aesEncrypt'', JsFunction CB_AesEncrypt), (''aesDecrypt'', JsFunction CB_AesDecrypt),
         (''sha256'', JsFunction CB_Sha256Hash), (''getModuleInfo'', JsFunction CB_GetModuleInfo)]"
  using Initialize_registers_four [of sample_env 0] Initialize_registers_four [of sample_env 5]
  by (auto simp add: sample_env_def)

text \<open>
  C9. \<open>Initialize\<close> returns the handle of the very exports object it was given, and every
  property of that object other than aesEncrypt, aesDecrypt, sha256 and getModuleInfo is
  unchanged: it has the value it had, and the properties that are not entry points stand
  in the order they had. No other object of the environment changes.
\<close>

theorem Initialize_frame:
  "fst (Initialize env exports) = exports \<and>
   (\<forall>k. k \<notin> entry_points \<longrightarrow>
      map_of (heap (snd (Initialize env exports)) exports) k = map_of (heap env exports) k) \<and>
   filter (\<lambda>p. fst p \<notin> entry_points) (heap (snd (Initialize env exports)) exports) =
     filter (\<lambda>p. fst p \<notin> entry_points) (heap env exports) \<and>
   (\<forall>h. h \<noteq> exports \<longrightarrow> heap (snd (Initialize env exports)) h = heap env h)"
  by (simp add: Initialize_result update_conv' filter_update_other entry_points_def)

theorem Initialize_frame_witness:
  "fst (Initialize sample_env 0) = 0 \<and>
   map_of (heap (snd (Initialize sample_env 0)) 0) ''default'' = Some (JsNumber 7) \<and>
   filter (\<lambda>p. fst p \<notin> entry_points) (heap (snd (Initialize sample_env 0)) 0) =
     [(''default'', JsNumber 7)] \<and>
   heap (snd (Initialize sample_env 0)) 3 = []"
  using Initialize_frame [of sample_env 0]
  by (simp add: sample_env_def entry_points_def)

section \<open>Properties of the SHA-256 engine\<close>

subsection \<open>Lengths\<close>

lemma length_be32_bytes: "length (be32_bytes w) = 4"
  by (simp add: be32_bytes_def)

lemma length_digest_of: "length (digest_of st) = 32"
  by (induction st rule: digest_of.induct) (simp add: length_be32_bytes)

lemma length_hashOneShot: "length (hashOneShot data) = 32"
  by (simp add: hashOneShot_def length_digest_of)

subsection \<open>What the buffer holds\<close>

lemma residue_short: "length bs < 64 \<Longrightarrow> residue bs = bs"
  by (simp add: residue.simps [of bs])

lemma residue_long: "\<not> length bs < 64 \<Longrightarrow> residue bs = residue (drop 64 bs)"
  by (simp add: residue.simps [of bs])

lemma hash_blocks_short: "length bs < 64 \<Longrightarrow> hash_blocks st bs = st"
  by (simp add: hash_blocks.simps [of st bs])

lemma hash_blocks_long:
  "\<not> length bs < 64 \<Longrightarrow> hash_blocks st bs = hash_blocks (compress st (take 64 bs)) (drop 64 bs)"
  by (simp add: hash_blocks.simps [of st bs])

lemma absorb_eq: "absorb st bs = (hash_blocks st bs, residue bs)"
proof (induction st bs rule: absorb.induct)
  case (1 st bs)
  show ?case
  proof (cases "length bs < 64")
    case True
    then show ?thesis
      by (simp add: absorb.simps [of st bs] hash_blocks_short residue_short)
  next
    case False
    with 1 show ?thesis
      by (simp add: absorb.simps [of st bs] hash_blocks_long residue_long)
  qed
qed

lemma length_residue: "length (residue bs) = length bs mod 64"
proof (induction bs rule: residue.induct)
  case (1 bs)
  show ?case
  proof (cases "length bs < 64")
    case True
    then show ?thesis by (simp add: residue_short)
  next
    case False
    then have "length (residue bs) = (length bs - 64) mod 64"
      using 1 by (simp add: residue_long)
    also have "\<dots> = length bs mod 64"
      using False by (simp add: le_mod_geq)
    finally show ?thesis .
  qed
qed

lemma residue_append: "residue (xs @ ys) = residue (residue xs @ ys)"
proof (induction xs rule: residue.induct)
  case (1 xs)
  show ?case
  proof (cases "length xs < 64")
    case True
    then show ?thesis by (simp add: residue_short)
  next
    case False
    then have "residue (xs @ ys) = residue (drop 64 xs @ ys)"
      by (simp add: residue_long)
    with False 1 show ?thesis
      by (simp add: residue_long)
  qed
qed

text \<open>Hashing may stop after any prefix and go on from what that prefix left over.\<close>

lemma hash_blocks_append:
  "hash_blocks st (xs @ ys) = hash_blocks (hash_blocks st xs) (residue xs @ ys)"
proof (induction st xs rule: hash_blocks.induct)
  case (1 st xs)
  show ?case
  proof (cases "length xs < 64")
    case True
    then show ?thesis
      by (simp add: hash_blocks_short residue_short)
  next
    case False
    then have "hash_blocks st (xs @ ys) = hash_blocks (compress st (take 64 xs)) (drop 64 xs @ ys)"
      by (simp add: hash_blocks_long)
    with False 1 show ?thesis
      by (simp add: hash_blocks_long residue_long)
  qed
qed

lemma padding_mod: "padding (n mod 64) bits = padding n bits"
  by (simp add: padding_def)

subsection \<open>The streaming invariant\<close>

lemma stream_inv_new: "stream_inv [] newStream"
  by (simp add: stream_inv_def newStream_def hash_blocks_short residue_short)

lemma stream_inv_update:
  assumes "stream_inv d s"
  shows "\<exists>s'. update s c = Inr s' \<and> stream_inv (d @ c) s'"
  using assms
  by (simp add: stream_inv_def update_def absorb_eq hash_blocks_append [symmetric]
      residue_append [symmetric] algebra_simps)

lemma stream_inv_update_all:
  "stream_inv d s \<Longrightarrow> \<exists>s'. update_all s cs = Inr s' \<and> stream_inv (d @ concat cs) s'"
proof (induction cs arbitrary: d s)
  case Nil
  then show ?case by simp
next
  case (Cons c cs)
  from stream_inv_update [OF Cons.prems, of c]
  obtain s1 where s1: "update s c = Inr s1" "stream_inv (d @ c) s1" by blast
  from Cons.IH [OF s1(2)] s1(1) show ?case by simp
qed

lemma stream_inv_finalize:
  assumes "stream_inv d s"
  shows "\<exists>s'. finalize s = Inr (hashOneShot d, s') \<and> hs_finalized s'"
proof -
  have "hash_blocks (hash_blocks H256 d)
          (residue d @ padding (length (residue d)) (8 * of_nat (length d))) =
        hash_blocks H256 (pad d)"
    by (simp add: hash_blocks_append [symmetric] length_residue padding_mod pad_def)
  with assms show ?thesis
    by (simp add: stream_inv_def finalize_def hashOneShot_def)
qed

lemma hashStream_eq: "hashStream chunks = Inr (hashOneShot (concat chunks))"
proof -
  from stream_inv_update_all [OF stream_inv_new, of chunks]
  obtain s where s: "update_all newStream chunks = Inr s" "stream_inv (concat chunks) s"
    by auto
  from stream_inv_finalize [OF s(2)] s(1) show ?thesis
    by (auto simp add: hashStream_def)
qed

text \<open>
  C6. For every byte sequence and every way of cutting it into consecutive chunks,
  streaming equals one-shot hashing: a fresh state updated with the chunks in order and
  then finalized returns the one-shot digest of their concatenation; in particular
  \<open>finalize (update newStream data)\<close> returns \<open>hashOneShot data\<close>, and two chunkings of
  the same bytes return the same digest.
\<close>

theorem streaming_equals_oneshot:
  "hashStream chunks = Inr (hashOneShot (concat chunks)) \<and>
   (\<exists>s s'. update newStream data = Inr s \<and> finalize s = Inr (hashOneShot data, s')) \<and>
   (concat chunks = concat chunks' \<longrightarrow> hashStream chunks = hashStream chunks')"
proof -
  from stream_inv_update [OF stream_inv_new, of data]
  obtain s where s: "update newStream data = Inr s" "stream_inv data s"
    by auto
  from stream_inv_finalize [OF s(2)] s(1)
  have "\<exists>s s'. update newStream data = Inr s \<and> finalize s = Inr (hashOneShot data, s')"
    by blast
  then show ?thesis
    by (simp add: hashStream_eq)
qed

theorem streaming_equals_oneshot_witness:
  "hashStream [[0x61], [], [0x62, 0x63]] = Inr (hashOneShot [0x61, 0x62, 0x63]) \<and>
   (\<exists>s s'. update newStream [0x61, 0x62, 0x63] = Inr s \<and>
            finalize s = Inr (hashOneShot [0x61, 0x62, 0x63], s')) \<and>
   hashStream [[0x61], [], [0x62, 0x63]] = hashStream [[0x61, 0x62], [0x63]]"
  using streaming_equals_oneshot
    [of "[[0x61], [], [0x62, 0x63]]" "[0x61, 0x62, 0x63]" "[[0x61, 0x62], [0x63]]"]
    streaming_equals_oneshot
    [of "[[0x61, 0x62], [0x63]]" "[0x61, 0x62, 0x63]" "[[0x61], [], [0x62, 0x63]]"]
  by simp

text \<open>A state is consumed by \<open>finalize\<close>: afterwards both operations refuse it.\<close>

lemma finalize_consumes:
  "finalize s = Inr (d, s') \<Longrightarrow>
   finalize s' = Inl AlreadyFinalized \<and> update s' c = Inl AlreadyFinalized"
  by (auto simp add: finalize_def update_def split: if_splits)

text \<open>
  C7. \<open>sha256\<close> of the empty byte sequence is the 32-byte digest whose hexadecimal encoding
  is the well-known SHA-256 constant of the empty string,
  \<open>e3b0c44298fc1c149afbf4c8996fb92427ae41e4649b934ca495991b7852b855\<close>.
\<close>

theorem sha256_empty:
  "to_hex (sha256 []) = ''e3b0c44298fc1c149afbf4c8996fb92427ae41e4649b934ca495991b7852b855'' \<and>
   length (sha256 []) = 32"
proof -
  have "to_hex (sha256 []) = ''e3b0c44298fc1c149afbf4c8996fb92427ae41e4649b934ca495991b7852b855''"
    by code_simp
  moreover have "length (sha256 []) = 32"
    by (simp add: sha256_def length_hashOneShot)
  ultimately show ?thesis
    by (rule conjI)
qed

text \<open>The second fixed vector of the specification's section 8, the digest of \<open>abc\<close>.\<close>

lemma sha256_abc:
  "to_hex (sha256 [0x61, 0x62, 0x63]) =
     ''ba7816bf8f01cfea414140de5dae2223b00361a396177a9cb410ff61f20015ad''"
  by code_simp

text \<open>
  The second literal of the specification's test requirement,
  \<open>e3b0c44298fc1c149afbf4c8996fb92427ae41e4649b934ca495991b7852b85\<close>, has 63 digits: it is
  the constant without its last digit, and the encoding of no 32-byte digest.
\<close>

lemma length_to_hex: "length (to_hex bs) = 2 * length bs"
  by (induction bs) (simp_all add: to_hex_def hex_of_byte_def)

lemma sha256_truncated_literal:
  "to_hex (sha256 data) \<noteq> ''e3b0c44298fc1c149afbf4c8996fb92427ae41e4649b934ca495991b7852b85''"
proof
  assume "to_hex (sha256 data) = ''e3b0c44298fc1c149afbf4c8996fb92427ae41e4649b934ca495991b7852b85''"
  then have "length (to_hex (sha256 data)) = 63"
    by simp
  then show False
    by (simp add: length_to_hex sha256_def length_hashOneShot)
qed

section \<open>Properties of AES-GCM and the facade\<close>

subsection \<open>Words and byte sequences\<close>

lemma word_or_eq_0: "(a :: 'a::len word) OR b = 0 \<longleftrightarrow> a = 0 \<and> b = 0"
  by (auto simp add: bit_eq_iff bit_or_iff)

lemma word_xor_eq_0: "(a :: 'a::len word) XOR b = 0 \<longleftrightarrow> a = b"
  by (auto simp add: bit_eq_iff bit_xor_iff)

lemma word_xor_xor_cancel: "((a :: 'a::len word) XOR b) XOR b = a"
  by (simp add: xor.assoc)

lemma or_acc_zero:
  "foldl (\<lambda>acc (x, y). acc OR (x XOR y)) (acc :: byte) zs = 0 \<longleftrightarrow>
     acc = 0 \<and> (\<forall>p \<in> set zs. fst p = snd p)"
  by (induction zs arbitrary: acc) (auto simp add: word_or_eq_0 word_xor_eq_0)

text \<open>The constant-time comparison decides equality.\<close>

lemma ct_equal_iff: "ct_equal a b \<longleftrightarrow> a = b"
proof -
  have "length a = length b \<Longrightarrow> (\<forall>p \<in> set (zip a b). fst p = snd p) \<longleftrightarrow> a = b"
    by (induction a b rule: list_induct2) auto
  then show ?thesis
    by (auto simp add: ct_equal_def or_acc_zero)
qed

lemma length_xor_bytes: "length (xor_bytes xs ys) = min (length xs) (length ys)"
  by (simp add: xor_bytes_def)

lemma xor_bytes_cancel: "length xs \<le> length ks \<Longrightarrow> xor_bytes (xor_bytes xs ks) ks = xs"
proof (induction xs arbitrary: ks)
  case Nil
  then show ?case by (simp add: xor_bytes_def)
next
  case (Cons x xs)
  then obtain k ks' where "ks = k # ks'" by (cases ks) auto
  with Cons show ?case by (simp add: xor_bytes_def word_xor_xor_cancel)
qed

subsection \<open>The block cipher returns 16 bytes\<close>

lemma length_block_words: "length (block_words bs) = length bs div 4"
  by (induction bs rule: block_words.induct) simp_all

lemma length_expand_loop: "length (expand_loop n nk ws) = length ws + n"
  by (induction n arbitrary: ws) simp_all

lemma length_round_keys_of: "length (round_keys_of ws) = length ws div 4"
  by (induction ws rule: round_keys_of.induct) simp_all

lemma round_keys_of_16: "rk \<in> set (round_keys_of ws) \<Longrightarrow> length rk = 16"
  by (induction ws rule: round_keys_of.induct) (auto simp add: length_be32_bytes)

text \<open>A key of \<open>nk\<close> words has \<open>nk + 7\<close> round keys: 11, 13 and 15 for the three AES key
  sizes, one more than the round counts 10, 12 and 14.\<close>

lemma length_expandKey: "length (expandKey key) = length key div 4 + 7"
  by (simp add: expandKey_def Let_def length_round_keys_of length_expand_loop length_block_words)

lemma expandKey_16: "rk \<in> set (expandKey key) \<Longrightarrow> length rk = 16"
  by (auto simp add: expandKey_def Let_def dest: round_keys_of_16)

lemma length_shift_rows: "length (shift_rows s) = 16"
  by (simp add: shift_rows_def)

lemma length_encryptBlock: "length (encryptBlock (expandKey key) block) = 16"
proof -
  have "2 \<le> length (expandKey key)"
    by (simp add: length_expandKey)
  then obtain rk0 rk1 rest where rks: "expandKey key = rk0 # rk1 # rest"
    by (cases "expandKey key"; cases "tl (expandKey key)") auto
  then have "last (rk1 # rest) \<in> set (expandKey key)"
    using last_in_set [of "rk1 # rest"] by simp
  then have "length (last (rk1 # rest)) = 16"
    by (rule expandKey_16)
  then show ?thesis
    by (simp add: rks encryptBlock_def final_round_def add_round_key_def
        length_xor_bytes length_shift_rows del: last.simps)
qed

subsection \<open>Counter mode\<close>

lemma ctr_xor_Nil: "ctr_xor rks cb [] = []"
  by (simp add: ctr_xor.simps)

lemma ctr_xor_step:
  "data \<noteq> [] \<Longrightarrow>
   ctr_xor rks cb data =
     xor_bytes (take 16 data) (encryptBlock rks cb) @ ctr_xor rks (inc32 cb) (drop 16 data)"
  by (simp add: ctr_xor.simps [of rks cb data])

text \<open>``Ciphertext length == plaintext length'' (section 3).\<close>

lemma length_ctr_xor: "length (ctr_xor (expandKey key) cb data) = length data"
proof (induction "expandKey key" cb data rule: ctr_xor.induct)
  case (1 cb data)
  show ?case
  proof (cases "data = []")
    case True
    then show ?thesis by (simp add: ctr_xor_Nil)
  next
    case False
    with 1 show ?thesis
      by (simp add: ctr_xor_step length_xor_bytes length_encryptBlock)
  qed
qed

text \<open>Applying the keystream twice gives the data back.\<close>

lemma ctr_xor_involution:
  "ctr_xor (expandKey key) cb (ctr_xor (expandKey key) cb data) = data"
proof (induction "expandKey key" cb data rule: ctr_xor.induct)
  case (1 cb data)
  let ?rks = "expandKey key"
  show ?case
  proof (cases "data = []")
    case True
    then show ?thesis by (simp add: ctr_xor_Nil)
  next
    case False
    let ?ks = "encryptBlock ?rks cb"
    let ?hd = "xor_bytes (take 16 data) ?ks"
    let ?tl = "ctr_xor ?rks (inc32 cb) (drop 16 data)"
    have ct: "ctr_xor ?rks cb data = ?hd @ ?tl"
      using False by (rule ctr_xor_step)
    have len_hd: "length ?hd = min (length data) 16"
      by (simp add: length_xor_bytes length_encryptBlock)
    have ne: "?hd @ ?tl \<noteq> []"
      using False len_hd by (cases data) auto
    have tk: "take 16 (?hd @ ?tl) = ?hd"
    proof (cases "length data \<le> 16")
      case True
      then have "?tl = []" by (simp add: ctr_xor_Nil)
      with len_hd show ?thesis by simp
    next
      case False
      with len_hd show ?thesis by simp
    qed
    have dr: "drop 16 (?hd @ ?tl) = ?tl"
    proof (cases "length data \<le> 16")
      case True
      then have "?tl = []" by (simp add: ctr_xor_Nil)
      with len_hd True show ?thesis by simp
    next
      case False
      with len_hd show ?thesis by simp
    qed
    have "ctr_xor ?rks cb (?hd @ ?tl) = xor_bytes ?hd ?ks @ ctr_xor ?rks (inc32 cb) ?tl"
      using ctr_xor_step [OF ne, of ?rks cb] by (simp only: tk dr)
    also have "xor_bytes ?hd ?ks = take 16 data"
      by (rule xor_bytes_cancel) (simp add: length_encryptBlock)
    also have "ctr_xor ?rks (inc32 cb) ?tl = drop 16 data"
      using 1 False by simp
    finally show ?thesis
      by (simp add: ct)
  qed
qed

subsection \<open>The wrapper\<close>

text \<open>``Tag length == 16'' (section 3).\<close>

lemma length_gcm_tag: "length (gcm_tag key nonce aad ct) = 16"
  by (simp add: gcm_tag_def Let_def length_xor_bytes length_encryptBlock word_to_block_def)

lemma gcm_roundtrip:
  "gcm_encrypt key nonce plaintext aad = (ct, tag) \<Longrightarrow>
   gcm_decrypt key nonce ct tag aad = Inr plaintext"
  by (auto simp add: gcm_encrypt_def gcm_decrypt_def Let_def ct_equal_iff ctr_xor_involution)

lemma gcm_decrypt_mismatch:
  "tag \<noteq> gcm_tag key nonce aad ct \<Longrightarrow> gcm_decrypt key nonce ct tag aad = Inl AuthenticationFailed"
  by (simp add: gcm_decrypt_def ct_equal_iff)

lemma gcm_decrypt_Inr:
  "gcm_decrypt key nonce ct tag aad = Inr pt \<Longrightarrow> tag = gcm_tag key nonce aad ct"
  by (simp add: gcm_decrypt_def ct_equal_iff split: if_splits)

lemma decrypt_Inr:
  "decrypt key nonce ct tag aad = Inr pt \<Longrightarrow> gcm_decrypt key nonce ct tag aad = Inr pt"
  by (simp add: decrypt_def split: if_splits)

text \<open>
  C4. For every valid key (16, 24 or 32 bytes), every 12-byte nonce, every plaintext and
  every associated data, \<open>encrypt\<close> returns a pair of ciphertext and tag, and \<open>decrypt\<close> of
  that pair under the same key, nonce and associated data returns the plaintext.
\<close>

theorem encrypt_decrypt_roundtrip:
  assumes "valid_key_length (length key)" and "length nonce = 12"
  shows "\<exists>ct tag. encrypt key nonce plaintext aad = Inr (ct, tag) \<and>
           decrypt key nonce ct tag aad = Inr plaintext"
proof -
  obtain ct tag where enc: "gcm_encrypt key nonce plaintext aad = (ct, tag)"
    by (cases "gcm_encrypt key nonce plaintext aad")
  then have tag: "length tag = 16"
    by (auto simp add: gcm_encrypt_def Let_def length_gcm_tag)
  from enc have "gcm_decrypt key nonce ct tag aad = Inr plaintext"
    by (rule gcm_roundtrip)
  with assms enc tag show ?thesis
    by (simp add: encrypt_def decrypt_def)
qed

theorem encrypt_decrypt_roundtrip_witness:
  "\<exists>ct tag. encrypt sample_key sample_nonce sample_plaintext sample_aad = Inr (ct, tag) \<and>
     decrypt sample_key sample_nonce ct tag sample_aad = Inr [0x68, 0x65, 0x6c, 0x6c, 0x6f]"
  using encrypt_decrypt_roundtrip [of sample_key sample_nonce sample_plaintext sample_aad]
  by (simp add: valid_key_length_def sample_key_def sample_nonce_def sample_plaintext_def)

text \<open>
  C5. For every key, nonce, ciphertext, tag and associated data: if the supplied tag is
  not the tag recomputed over the associated data and the ciphertext, Decrypt of the
  wrapper fails with \<open>AuthenticationFailed\<close>, and so does \<open>decrypt\<close> of the facade once
  the lengths of key, nonce and tag have passed its validation; the result is an error
  value and carries no plaintext. Whenever either returns a plaintext, the tag matched.
\<close>

theorem decrypt_authentication:
  "(tag \<noteq> gcm_tag key nonce aad ct \<longrightarrow>
      gcm_decrypt key nonce ct tag aad = Inl AuthenticationFailed) \<and>
   (tag \<noteq> gcm_tag key nonce aad ct \<and>
    valid_key_length (length key) \<and> length nonce = 12 \<and> length tag = 16 \<longrightarrow>
      decrypt key nonce ct tag aad = Inl AuthenticationFailed) \<and>
   (\<forall>pt. gcm_decrypt key nonce ct tag aad = Inr pt \<longrightarrow> tag = gcm_tag key nonce aad ct) \<and>
   (\<forall>pt. decrypt key nonce ct tag aad = Inr pt \<longrightarrow> tag = gcm_tag key nonce aad ct)"
proof (intro conjI allI impI)
  assume "tag \<noteq> gcm_tag key nonce aad ct"
  then show "gcm_decrypt key nonce ct tag aad = Inl AuthenticationFailed"
    by (rule gcm_decrypt_mismatch)
next
  assume a: "tag \<noteq> gcm_tag key nonce aad ct \<and>
    valid_key_length (length key) \<and> length nonce = 12 \<and> length tag = 16"
  then have "decrypt key nonce ct tag aad = gcm_decrypt key nonce ct tag aad"
    by (simp add: decrypt_def)
  moreover from a have "gcm_decrypt key nonce ct tag aad = Inl AuthenticationFailed"
    by (intro gcm_decrypt_mismatch) (rule conjunct1)
  ultimately show "decrypt key nonce ct tag aad = Inl AuthenticationFailed"
    by (rule trans)
next
  fix pt
  assume "gcm_decrypt key nonce ct tag aad = Inr pt"
  then show "tag = gcm_tag key nonce aad ct"
    by (rule gcm_decrypt_Inr)
next
  fix pt
  assume "decrypt key nonce ct tag aad = Inr pt"
  then have "gcm_decrypt key nonce ct tag aad = Inr pt"
    by (rule decrypt_Inr)
  then show "tag = gcm_tag key nonce aad ct"
    by (rule gcm_decrypt_Inr)
qed

text \<open>
  A closed instance: a tag of no bytes never matches; of two different 16-byte tags at
  least one is refused; and the pair that \<open>gcm_encrypt\<close> returns is accepted, with the
  matching tag.
\<close>

theorem decrypt_authentication_witness:
  "gcm_decrypt sample_key sample_nonce [0x00, 0x01] [] sample_aad = Inl AuthenticationFailed \<and>
   (decrypt sample_key sample_nonce [0x00, 0x01] (replicate 16 0x00) sample_aad
      = Inl AuthenticationFailed \<or>
    decrypt sample_key sample_nonce [0x00, 0x01] (replicate 16 0xff) sample_aad
      = Inl AuthenticationFailed) \<and>
   (\<exists>ct tag. gcm_encrypt sample_key sample_nonce sample_plaintext sample_aad = (ct, tag) \<and>
      gcm_decrypt sample_key sample_nonce ct tag sample_aad = Inr sample_plaintext \<and>
      tag = gcm_tag sample_key sample_nonce sample_aad ct)"
proof -
  let ?t = "gcm_tag sample_key sample_nonce sample_aad [0x00, 0x01]"
  note wrapper = decrypt_authentication [THEN conjunct1]
  note facade = decrypt_authentication [THEN conjunct2, THEN conjunct1]
  note accepted = decrypt_authentication [THEN conjunct2, THEN conjunct2, THEN conjunct1]
  have "[] \<noteq> ?t"
    using length_gcm_tag [of sample_key sample_nonce sample_aad "[0x00, 0x01]"] by auto
  with wrapper [of "[]" sample_key sample_nonce sample_aad "[0x00, 0x01]"]
  have first: "gcm_decrypt sample_key sample_nonce [0x00, 0x01] [] sample_aad = Inl AuthenticationFailed"
    by blast
  have shapes: "valid_key_length (length sample_key)" "length sample_nonce = 12"
    by (simp_all add: valid_key_length_def sample_key_def sample_nonce_def)
  have len: "length (replicate 16 (0x00 :: byte)) = 16" "length (replicate 16 (0xff :: byte)) = 16"
    by simp_all
  have "replicate 16 (0x00 :: byte) \<noteq> replicate 16 0xff"
    by simp
  then have "replicate 16 0x00 \<noteq> ?t \<or> replicate 16 0xff \<noteq> ?t"
    by metis
  with shapes len
    facade [of "replicate 16 0x00" sample_key sample_nonce sample_aad "[0x00, 0x01]"]
    facade [of "replicate 16 0xff" sample_key sample_nonce sample_aad "[0x00, 0x01]"]
  have second:
    "decrypt sample_key sample_nonce [0x00, 0x01] (replicate 16 0x00) sample_aad
       = Inl AuthenticationFailed \<or>
     decrypt sample_key sample_nonce [0x00, 0x01] (replicate 16 0xff) sample_aad
       = Inl AuthenticationFailed"
    by blast
  obtain ct tag where enc: "gcm_encrypt sample_key sample_nonce sample_plaintext sample_aad = (ct, tag)"
    by (cases "gcm_encrypt sample_key sample_nonce sample_plaintext sample_aad")
  from gcm_roundtrip [OF enc]
  have dec: "gcm_decrypt sample_key sample_nonce ct tag sample_aad = Inr sample_plaintext" .
  with accepted [of sample_key sample_nonce ct tag sample_aad]
  have "tag = gcm_tag sample_key sample_nonce sample_aad ct"
    by blast
  with enc dec first second show ?thesis
    by blast
qed

subsection \<open>Known answers of the field arithmetic\<close>

text \<open>The worked product of the AES standard, \<open>{57} \<bullet> {83} = {c1}\<close>, and its substitution
  example, \<open>{53}\<close> to \<open>{ed}\<close>.\<close>

lemma gf_mul_known_answer: "gf_mul 0x57 0x83 = 0xc1"
  by code_simp

lemma sbox_known_answer: "sbox 0x53 = 0xed"
  by code_simp

end
